theory Spec2Isabelle
  imports Main "HOL-Library.Sublist"
begin

section \<open>Data model\<close>

text \<open>
  \<^verbatim>\<open>models/modelo.py\<close>: a \<^verbatim>\<open>Cliente\<close> object. The attributes of the Python object may
  all hold \<^verbatim>\<open>None\<close> (\<^verbatim>\<open>setattr(cliente, key, None)\<close> is possible); the columns declared
  \<^verbatim>\<open>nullable=False\<close> and \<^verbatim>\<open>unique=True\<close> are checked by the database when the session
  is committed. The primary key and \<^verbatim>\<open>data_criacao\<close> are assigned by the insert, so they
  are plain values here. Instants of time are natural numbers.
\<close>

type_synonym datetime = nat

record cliente =
  id_cliente :: int
  nome :: "string option"
  email :: "string option"
  idade :: "int option"
  cpf :: "string option"
  cnpj :: "string option"
  cep :: "string option"
  endereco :: "string option"
  telefone :: "string option"
  data_criacao :: datetime

text \<open>
  \<^verbatim>\<open>Pedido\<close>: the columns the customer service can observe through the relationship
  \<^verbatim>\<open>Cliente.pedidos\<close> (the foreign key \<^verbatim>\<open>cliente_id\<close>), with the order's key, instant and
  status. The floating-point total is not read by the service and is left out.
\<close>

record pedido =
  id_pedido :: int
  data_pedido :: datetime
  status :: string
  pedido_cliente_id :: int

text \<open>The database behind the session: the two tables, rows in insertion order.\<close>

record database =
  clientes :: "cliente list"
  pedidos :: "pedido list"

text \<open>
  \<^verbatim>\<open>middleware/cliente_schema.py\<close>. \<^verbatim>\<open>ClienteCreate\<close> has three required fields and five
  optional ones. \<^verbatim>\<open>ClienteUpdate\<close> declares five fields, each \<^verbatim>\<open>Optional[...] = None\<close>; since
  the service dumps it with \<^verbatim>\<open>exclude_unset=True\<close>, a field that was never supplied
  (\<open>Unset\<close>) differs from one supplied as \<^verbatim>\<open>null\<close> (\<open>IsSet None\<close>).
\<close>

record cliente_create =
  create_nome :: string
  create_email :: string
  create_idade :: "int option"
  create_cpf :: string
  create_cnpj :: "string option"
  create_cep :: "string option"
  create_endereco :: "string option"
  create_telefone :: "string option"

datatype 'a campo = Unset | IsSet 'a

record cliente_update =
  update_nome :: "string option campo"
  update_email :: "string option campo"
  update_idade :: "int option campo"
  update_telefone :: "string option campo"
  update_endereco :: "string option campo"

text \<open>Reading an attribute of the schema object: an unset field has its default, \<^verbatim>\<open>None\<close>.\<close>

fun attr :: "'a option campo \<Rightarrow> 'a option" where
  "attr Unset = None"
| "attr (IsSet v) = v"

text \<open>\<^verbatim>\<open>setattr\<close> for the keys of \<^verbatim>\<open>model_dump(exclude_unset=True)\<close>: only a set field is written.\<close>

fun setattr_campo :: "'a campo \<Rightarrow> 'a \<Rightarrow> 'a" where
  "setattr_campo Unset old = old"
| "setattr_campo (IsSet v) old = v"

text \<open>
  Failures. The service raises \<^verbatim>\<open>HTTPException(status_code, detail)\<close>; the detail is an
  f-string, kept here as the message kind with the interpolated value. A commit that
  violates a constraint of the schema raises SQLAlchemy's \<^verbatim>\<open>IntegrityError\<close>, and a
  commit that writes an integer the column cannot hold is refused by the driver
  (\<open>DataError\<close>); the service catches neither.
\<close>

datatype detail =
    ClienteNaoEncontrado int
  | CpfJaCadastrado string
  | EmailJaCadastrado string
  | ClienteComPedidos nat

datatype error = HTTPException nat detail | IntegrityError | DataError

definition HTTP_404_NOT_FOUND :: nat where
  "HTTP_404_NOT_FOUND = 404"

definition HTTP_400_BAD_REQUEST :: nat where
  "HTTP_400_BAD_REQUEST = 400"

section \<open>The database session\<close>

text \<open>
  The constraints of table \<^verbatim>\<open>clientes\<close> (\<^verbatim>\<open>modelo.py\<close>, lines 14-19), checked for the row
  that is written against the other rows: \<^verbatim>\<open>nome\<close>, \<^verbatim>\<open>email\<close>, \<^verbatim>\<open>cpf\<close> are NOT NULL; the
  primary key, \<^verbatim>\<open>email\<close>, \<^verbatim>\<open>cpf\<close> and \<^verbatim>\<open>cnpj\<close> are UNIQUE (SQL lets any number of rows
  hold NULL in a unique column).
\<close>

definition viola_restricoes :: "cliente \<Rightarrow> cliente list \<Rightarrow> bool" where
  "viola_restricoes r outros \<longleftrightarrow>
     nome r = None \<or> email r = None \<or> cpf r = None
     \<or> id_cliente r \<in> set (map id_cliente outros)
     \<or> email r \<in> set (map email outros)
     \<or> cpf r \<in> set (map cpf outros)
     \<or> (cnpj r \<noteq> None \<and> cnpj r \<in> set (map cnpj outros))"

text \<open>
  Column \<^verbatim>\<open>idade\<close> is \<^verbatim>\<open>Column(Integer)\<close> (\<^verbatim>\<open>modelo.py\<close>, line 17), and Python's
  integers are unbounded. The engine (\<^verbatim>\<open>database/banco.py\<close>) is not among the sources;
  INTEGER is taken as the signed 64-bit integer, the widest INTEGER of the engines
  SQLAlchemy has dialects for, so a value refused here is refused by every engine.
\<close>

definition INTEGER_MIN :: int where
  "INTEGER_MIN = - (2 ^ 63)"

definition INTEGER_MAX :: int where
  "INTEGER_MAX = 2 ^ 63 - 1"

definition cabe_em_INTEGER :: "int option \<Rightarrow> bool" where
  "cabe_em_INTEGER v =
     (case v of None \<Rightarrow> True | Some n \<Rightarrow> INTEGER_MIN \<le> n \<and> n \<le> INTEGER_MAX)"

text \<open>
  Modelled from the spec: \<^verbatim>\<open>database/banco.py\<close> (the engine and the declarative base) is
  not among the sources; the spec says the identifier is "integer, system-assigned,
  unique". The key given to a new row is one more than the largest key in the table
  (1 for an empty table), which no stored row has.
\<close>

definition proximo_id :: "database \<Rightarrow> int" where
  "proximo_id db = fold max (map id_cliente (clientes db)) 0 + 1"

text \<open>
  \<^verbatim>\<open>db.add(novo); db.commit(); db.refresh(novo)\<close>: the INSERT, or the rollback.
  \<^verbatim>\<open>ClienteCreate\<close> bounds \<^verbatim>\<open>idade\<close> by \<^verbatim>\<open>Field(None, ge=0, le=150)\<close>, inside every
  INTEGER, so an insert never writes an integer out of range.
\<close>

definition commit_insert :: "database \<Rightarrow> cliente \<Rightarrow> (error + cliente) \<times> database" where
  "commit_insert db novo =
     (if viola_restricoes novo (clientes db) then (Inl IntegrityError, db)
      else (Inr novo, db\<lparr>clientes := clientes db @ [novo]\<rparr>))"

text \<open>
  \<^verbatim>\<open>db.commit(); db.refresh(cliente)\<close> after attribute writes: the UPDATE of the row
  with the object's primary key, or the rollback. \<^verbatim>\<open>ClienteUpdate.idade\<close> is
  \<^verbatim>\<open>Optional[int]\<close> with no bounds, so the object may hold an integer the column
  cannot: the parameters are bound before the statement runs, and the driver refuses it.
\<close>

definition commit_update :: "database \<Rightarrow> cliente \<Rightarrow> (error + cliente) \<times> database" where
  "commit_update db obj =
     (if \<not> cabe_em_INTEGER (idade obj) then (Inl DataError, db)
      else if viola_restricoes obj
                (filter (\<lambda>c. id_cliente c \<noteq> id_cliente obj) (clientes db))
      then (Inl IntegrityError, db)
      else (Inr obj,
            db\<lparr>clientes := map (\<lambda>c. if id_cliente c = id_cliente obj then obj else c)
                              (clientes db)\<rparr>))"

text \<open>\<^verbatim>\<open>db.delete(cliente); db.commit()\<close>: DELETE of the row with that primary key.\<close>

definition commit_delete :: "database \<Rightarrow> cliente \<Rightarrow> database" where
  "commit_delete db obj =
     db\<lparr>clientes := filter (\<lambda>c. id_cliente c \<noteq> id_cliente obj) (clientes db)\<rparr>"

text \<open>The relationship \<^verbatim>\<open>cliente.pedidos\<close>: the orders whose foreign key is the customer's key.\<close>

definition pedidos_de :: "database \<Rightarrow> cliente \<Rightarrow> pedido list" where
  "pedidos_de db c = filter (\<lambda>p. pedido_cliente_id p = id_cliente c) (pedidos db)"

section \<open>ClienteService\<close>

text \<open>\<^verbatim>\<open>_validar_cpf_unico\<close> and \<^verbatim>\<open>_validar_email_unico\<close>: \<^verbatim>\<open>query.filter(col == v).first()\<close>
  and HTTP 400 when a row is found.\<close>

definition validar_cpf_unico :: "database \<Rightarrow> string \<Rightarrow> error + unit" where
  "validar_cpf_unico db v =
     (case find (\<lambda>c. cpf c = Some v) (clientes db) of
        Some cliente_existente \<Rightarrow> Inl (HTTPException HTTP_400_BAD_REQUEST (CpfJaCadastrado v))
      | None \<Rightarrow> Inr ())"

definition validar_email_unico :: "database \<Rightarrow> string \<Rightarrow> error + unit" where
  "validar_email_unico db v =
     (case find (\<lambda>c. email c = Some v) (clientes db) of
        Some cliente_existente \<Rightarrow> Inl (HTTPException HTTP_400_BAD_REQUEST (EmailJaCadastrado v))
      | None \<Rightarrow> Inr ())"

text \<open>\<^verbatim>\<open>Cliente(**cliente_data.model_dump())\<close>, with the key and the instant the INSERT gives.\<close>

definition novo_cliente :: "int \<Rightarrow> datetime \<Rightarrow> cliente_create \<Rightarrow> cliente" where
  "novo_cliente i agora d =
     \<lparr>id_cliente = i, nome = Some (create_nome d), email = Some (create_email d),
      idade = create_idade d, cpf = Some (create_cpf d), cnpj = create_cnpj d,
      cep = create_cep d, endereco = create_endereco d, telefone = create_telefone d,
      data_criacao = agora\<rparr>"

text \<open>\<^verbatim>\<open>criar_cliente\<close>: \<open>agora\<close> is the value of \<^verbatim>\<open>datetime.utcnow\<close> at the insert.\<close>

definition criar_cliente ::
  "database \<Rightarrow> datetime \<Rightarrow> cliente_create \<Rightarrow> (error + cliente) \<times> database" where
  "criar_cliente db agora cliente_data =
     (case validar_cpf_unico db (create_cpf cliente_data) of
        Inl e \<Rightarrow> (Inl e, db)
      | Inr _ \<Rightarrow>
          (case validar_email_unico db (create_email cliente_data) of
             Inl e \<Rightarrow> (Inl e, db)
           | Inr _ \<Rightarrow> commit_insert db (novo_cliente (proximo_id db) agora cliente_data)))"

definition obter_cliente_por_id :: "database \<Rightarrow> int \<Rightarrow> error + cliente" where
  "obter_cliente_por_id db cliente_id =
     (case find (\<lambda>c. id_cliente c = cliente_id) (clientes db) of
        None \<Rightarrow> Inl (HTTPException HTTP_404_NOT_FOUND (ClienteNaoEncontrado cliente_id))
      | Some cliente \<Rightarrow> Inr cliente)"

text \<open>The loop \<^verbatim>\<open>for key, value in update_data.items(): setattr(cliente, key, value)\<close>.\<close>

definition aplicar_update :: "cliente \<Rightarrow> cliente_update \<Rightarrow> cliente" where
  "aplicar_update cliente d =
     cliente\<lparr>nome := setattr_campo (update_nome d) (nome cliente),
             email := setattr_campo (update_email d) (email cliente),
             idade := setattr_campo (update_idade d) (idade cliente),
             telefone := setattr_campo (update_telefone d) (telefone cliente),
             endereco := setattr_campo (update_endereco d) (endereco cliente)\<rparr>"

text \<open>
  \<^verbatim>\<open>atualizar_cliente\<close>. The guard \<^verbatim>\<open>cliente_data.email and cliente_data.email != cliente.email\<close>
  is false for \<^verbatim>\<open>None\<close> and for the empty string.
\<close>

definition atualizar_cliente ::
  "database \<Rightarrow> int \<Rightarrow> cliente_update \<Rightarrow> (error + cliente) \<times> database" where
  "atualizar_cliente db cliente_id cliente_data =
     (case obter_cliente_por_id db cliente_id of
        Inl e \<Rightarrow> (Inl e, db)
      | Inr cliente \<Rightarrow>
          (case (case attr (update_email cliente_data) of
                   None \<Rightarrow> Inr ()
                 | Some v \<Rightarrow>
                     if v \<noteq> [] \<and> Some v \<noteq> email cliente then validar_email_unico db v
                     else Inr ()) of
             Inl e \<Rightarrow> (Inl e, db)
           | Inr _ \<Rightarrow> commit_update db (aplicar_update cliente cliente_data)))"

definition atualizar_email ::
  "database \<Rightarrow> int \<Rightarrow> string \<Rightarrow> (error + cliente) \<times> database" where
  "atualizar_email db cliente_id novo_email =
     (case obter_cliente_por_id db cliente_id of
        Inl e \<Rightarrow> (Inl e, db)
      | Inr cliente \<Rightarrow>
          (case (if Some novo_email \<noteq> email cliente then validar_email_unico db novo_email
                 else Inr ()) of
             Inl e \<Rightarrow> (Inl e, db)
           | Inr _ \<Rightarrow> commit_update db (cliente\<lparr>email := Some novo_email\<rparr>)))"

definition deletar_cliente :: "database \<Rightarrow> int \<Rightarrow> (error + unit) \<times> database" where
  "deletar_cliente db cliente_id =
     (case obter_cliente_por_id db cliente_id of
        Inl e \<Rightarrow> (Inl e, db)
      | Inr cliente \<Rightarrow>
          if length (pedidos_de db cliente) > 0
          then (Inl (HTTPException HTTP_400_BAD_REQUEST
                       (ClienteComPedidos (length (pedidos_de db cliente)))), db)
          else (Inr (), commit_delete db cliente))"

text \<open>
  \<^verbatim>\<open>Cliente.nome.ilike(pattern)\<close> is SQL's LIKE on the lower-cased operands: in the pattern
  \<^verbatim>\<open>%\<close> stands for any run of characters and \<^verbatim>\<open>_\<close> for any single character. The
  service passes no escape character, and the engine (\<^verbatim>\<open>database/banco.py\<close>) is not among
  the sources, so the pattern has none. Lower-casing maps the ASCII letters A-Z
  (codes 65-90) to a-z by setting bit 5, and leaves every other character as it is.
\<close>

definition lower_char :: "char \<Rightarrow> char" where
  "lower_char c =
     (let n = (of_char c :: nat) in
      if 65 \<le> n \<and> n \<le> 90
      then Char (digit0 c) (digit1 c) (digit2 c) (digit3 c) (digit4 c) True (digit6 c) (digit7 c)
      else c)"

fun like :: "string \<Rightarrow> string \<Rightarrow> bool" where
  "like [] [] = True"
| "like [] (c # s) = False"
| "like (p # ps) [] = (p = CHR ''%'' \<and> like ps [])"
| "like (p # ps) (c # s) =
     (if p = CHR ''%'' then like ps (c # s) \<or> like (p # ps) s
      else (p = CHR ''_'' \<or> p = c) \<and> like ps s)"

definition ilike :: "string \<Rightarrow> string \<Rightarrow> bool" where
  "ilike s pattern = like (map lower_char pattern) (map lower_char s)"

text \<open>\<^verbatim>\<open>buscar_por_nome\<close>: the filter \<^verbatim>\<open>Cliente.nome.ilike(f"%{nome}%")\<close>; a NULL name matches
  nothing.\<close>

definition buscar_por_nome :: "database \<Rightarrow> string \<Rightarrow> cliente list" where
  "buscar_por_nome db nome_q =
     filter (\<lambda>c. case nome c of None \<Rightarrow> False
                 | Some n \<Rightarrow> ilike n (''%'' @ nome_q @ ''%''))
       (clientes db)"

section \<open>The request body of an update\<close>

text \<open>
  The customer field set of the data model, and the JSON object a PUT request carries:
  any of the eight keys may be present, with a JSON value of the field's type or
  \<^verbatim>\<open>null\<close>. \<^verbatim>\<open>ClienteUpdate\<close> declares five of them and keeps Pydantic's default
  configuration, under which a key that is not a declared field is ignored by
  validation. The email is an \<^verbatim>\<open>EmailStr\<close>: the validator of the \<^verbatim>\<open>email-validator\<close>
  library, which is not part of the repository, refuses a string that is no email address
  and returns the normalised address otherwise; it is the parameter \<open>validate_email\<close>.
  Validation fails (HTTP 422, \<open>None\<close>) when the validator refuses the email.
\<close>

datatype campo_nome = Nome | Email | Idade | Cpf | Cnpj | Cep | Endereco | Telefone

record corpo_update =
  corpo_nome :: "string option campo"
  corpo_email :: "string option campo"
  corpo_idade :: "int option campo"
  corpo_cpf :: "string option campo"
  corpo_cnpj :: "string option campo"
  corpo_cep :: "string option campo"
  corpo_endereco :: "string option campo"
  corpo_telefone :: "string option campo"

definition validar_ClienteUpdate ::
  "(string \<Rightarrow> string option) \<Rightarrow> corpo_update \<Rightarrow> cliente_update option" where
  "validar_ClienteUpdate validate_email b =
     (case (case corpo_email b of
              Unset \<Rightarrow> Some Unset
            | IsSet None \<Rightarrow> Some (IsSet None)
            | IsSet (Some e) \<Rightarrow>
                (case validate_email e of
                   None \<Rightarrow> None
                 | Some normalizado \<Rightarrow> Some (IsSet (Some normalizado)))) of
        None \<Rightarrow> None
      | Some campo_email \<Rightarrow>
          Some \<lparr>update_nome = corpo_nome b, update_email = campo_email,
                update_idade = corpo_idade b, update_telefone = corpo_telefone b,
                update_endereco = corpo_endereco b\<rparr>)"

fun fornecido :: "'a campo \<Rightarrow> bool" where
  "fornecido Unset = False"
| "fornecido (IsSet v) = True"

text \<open>The keys of \<^verbatim>\<open>cliente_data.model_dump(exclude_unset=True)\<close>: the attributes the update
  writes.\<close>

definition update_data_keys :: "cliente_update \<Rightarrow> campo_nome set" where
  "update_data_keys d =
     (if fornecido (update_nome d) then {Nome} else {})
     \<union> (if fornecido (update_email d) then {Email} else {})
     \<union> (if fornecido (update_idade d) then {Idade} else {})
     \<union> (if fornecido (update_telefone d) then {Telefone} else {})
     \<union> (if fornecido (update_endereco d) then {Endereco} else {})"

text \<open>An update input that supplies exactly the fields of \<open>S\<close> it can hold, with the given
  values.\<close>

definition montar_update ::
  "campo_nome set \<Rightarrow> string \<Rightarrow> string \<Rightarrow> int option \<Rightarrow> string option \<Rightarrow> string option
     \<Rightarrow> cliente_update" where
  "montar_update S n e i t en =
     \<lparr>update_nome = (if Nome \<in> S then IsSet (Some n) else Unset),
      update_email = (if Email \<in> S then IsSet (Some e) else Unset),
      update_idade = (if Idade \<in> S then IsSet i else Unset),
      update_telefone = (if Telefone \<in> S then IsSet t else Unset),
      update_endereco = (if Endereco \<in> S then IsSet en else Unset)\<rparr>"

section \<open>Sequences of operations and the schema invariant\<close>

datatype operacao =
    Create datetime cliente_create
  | Update int cliente_update
  | UpdateEmail int string
  | Delete int

text \<open>One request: the database it leaves behind (a failed request leaves it as it was).\<close>

fun executar :: "database \<Rightarrow> operacao \<Rightarrow> database" where
  "executar db (Create agora d) = snd (criar_cliente db agora d)"
| "executar db (Update i d) = snd (atualizar_cliente db i d)"
| "executar db (UpdateEmail i e) = snd (atualizar_email db i e)"
| "executar db (Delete i) = snd (deletar_cliente db i)"

text \<open>What the schema of table \<^verbatim>\<open>clientes\<close> promises of every stored table.\<close>

definition esquema_ok :: "database \<Rightarrow> bool" where
  "esquema_ok db \<longleftrightarrow>
     None \<notin> set (map nome (clientes db))
     \<and> None \<notin> set (map email (clientes db))
     \<and> None \<notin> set (map cpf (clientes db))
     \<and> distinct (map id_cliente (clientes db))
     \<and> distinct (map email (clientes db))
     \<and> distinct (map cpf (clientes db))
     \<and> distinct (map cnpj (filter (\<lambda>c. cnpj c \<noteq> None) (clientes db)))"

section \<open>Example data\<close>

definition cliente_maria :: cliente where
  "cliente_maria =
     \<lparr>id_cliente = 1, nome = Some ''Maria Silva'', email = Some ''maria@example.com'',
      idade = Some 30, cpf = Some ''12345678901'', cnpj = Some ''12345678000199'',
      cep = None, endereco = None, telefone = None, data_criacao = 100\<rparr>"

definition cliente_joao :: cliente where
  "cliente_joao =
     \<lparr>id_cliente = 2, nome = Some ''Joao Souza'', email = Some ''joao@example.com'',
      idade = None, cpf = Some ''98765432100'', cnpj = None,
      cep = None, endereco = None, telefone = None, data_criacao = 200\<rparr>"

definition pedido_1 :: pedido where
  "pedido_1 = \<lparr>id_pedido = 1, data_pedido = 300, status = ''pendente'', pedido_cliente_id = 2\<rparr>"

definition db_exemplo :: database where
  "db_exemplo = \<lparr>clientes = [cliente_maria, cliente_joao], pedidos = [pedido_1]\<rparr>"

definition create_ana :: cliente_create where
  "create_ana =
     \<lparr>create_nome = ''Ana Lima'', create_email = ''ana@example.com'', create_idade = None,
      create_cpf = ''11122233344'', create_cnpj = None, create_cep = None,
      create_endereco = None, create_telefone = None\<rparr>"

definition update_vazio :: cliente_update where
  "update_vazio =
     \<lparr>update_nome = Unset, update_email = Unset, update_idade = Unset,
      update_telefone = Unset, update_endereco = Unset\<rparr>"

definition corpo_vazio :: corpo_update where
  "corpo_vazio =
     \<lparr>corpo_nome = Unset, corpo_email = Unset, corpo_idade = Unset, corpo_cpf = Unset,
      corpo_cnpj = Unset, corpo_cep = Unset, corpo_endereco = Unset, corpo_telefone = Unset\<rparr>"

section \<open>Auxiliary facts\<close>

lemma find_in_map:
  "find (\<lambda>c. f c = v) xs = None \<longleftrightarrow> v \<notin> set (map f xs)"
  by (induction xs) auto

lemma validar_cpf_unico_dup:
  "Some v \<in> set (map cpf (clientes db)) \<Longrightarrow>
   validar_cpf_unico db v = Inl (HTTPException 400 (CpfJaCadastrado v))"
  using find_in_map [of cpf "Some v" "clientes db"]
  by (auto simp: validar_cpf_unico_def HTTP_400_BAD_REQUEST_def split: option.splits)

lemma validar_cpf_unico_ok:
  "Some v \<notin> set (map cpf (clientes db)) \<Longrightarrow> validar_cpf_unico db v = Inr ()"
  using find_in_map [of cpf "Some v" "clientes db"]
  by (auto simp: validar_cpf_unico_def split: option.splits)

lemma validar_email_unico_dup:
  "Some v \<in> set (map email (clientes db)) \<Longrightarrow>
   validar_email_unico db v = Inl (HTTPException 400 (EmailJaCadastrado v))"
  using find_in_map [of email "Some v" "clientes db"]
  by (auto simp: validar_email_unico_def HTTP_400_BAD_REQUEST_def split: option.splits)

lemma validar_email_unico_ok:
  "Some v \<notin> set (map email (clientes db)) \<Longrightarrow> validar_email_unico db v = Inr ()"
  using find_in_map [of email "Some v" "clientes db"]
  by (auto simp: validar_email_unico_def split: option.splits)

lemma fold_max_ge: "(a::int) \<le> fold max xs a"
proof (induction xs arbitrary: a)
  case Nil
  show ?case by simp
next
  case (Cons x xs)
  have "a \<le> max x a" by simp
  also have "\<dots> \<le> fold max xs (max x a)" by (rule Cons.IH)
  finally show ?case by simp
qed

lemma fold_max_upper: "x \<in> set xs \<Longrightarrow> (x::int) \<le> fold max xs a"
proof (induction xs arbitrary: a)
  case Nil
  then show ?case by simp
next
  case (Cons y ys)
  show ?case
  proof (cases "x = y")
    case True
    have "x \<le> max y a" using True by simp
    also have "\<dots> \<le> fold max ys (max y a)" by (rule fold_max_ge)
    finally show ?thesis by simp
  next
    case False
    with Cons.prems have "x \<in> set ys" by simp
    then show ?thesis using Cons.IH by simp
  qed
qed

lemma proximo_id_fresh: "proximo_id db \<notin> set (map id_cliente (clientes db))"
proof
  assume "proximo_id db \<in> set (map id_cliente (clientes db))"
  then have "proximo_id db \<le> fold max (map id_cliente (clientes db)) 0"
    by (rule fold_max_upper)
  then show False by (simp add: proximo_id_def)
qed


lemma obter_Inr_iff:
  "obter_cliente_por_id db i = Inr c \<longleftrightarrow> find (\<lambda>c. id_cliente c = i) (clientes db) = Some c"
  by (auto simp: obter_cliente_por_id_def split: option.splits)

lemma obter_Inr_D:
  assumes "obter_cliente_por_id db i = Inr c"
  shows "c \<in> set (clientes db)" and "id_cliente c = i"
  using assms by (auto simp: obter_Inr_iff find_Some_iff in_set_conv_nth)

lemma find_append_last:
  "v \<notin> set (map f xs) \<Longrightarrow> f y = v \<Longrightarrow> find (\<lambda>c. f c = v) (xs @ [y]) = Some y"
  by (induction xs) auto

section \<open>Create\<close>

text \<open>
  Claim C2. In every state and for every input of Create: when the input's cpf is the cpf
  of a stored customer, \<^verbatim>\<open>criar_cliente\<close> fails with HTTP 400 and the duplicate-cpf detail;
  when the cpf is new and the email is the email of a stored customer, it fails with
  HTTP 400 and the duplicate-email detail. In both cases the database is left as it was.
\<close>

theorem criar_cliente_duplicado:
  "(Some (create_cpf d) \<in> set (map cpf (clientes db)) \<longrightarrow>
      criar_cliente db agora d
        = (Inl (HTTPException 400 (CpfJaCadastrado (create_cpf d))), db))
   \<and> (Some (create_cpf d) \<notin> set (map cpf (clientes db))
        \<and> Some (create_email d) \<in> set (map email (clientes db)) \<longrightarrow>
      criar_cliente db agora d
        = (Inl (HTTPException 400 (EmailJaCadastrado (create_email d))), db))"
  by (simp add: criar_cliente_def validar_cpf_unico_dup validar_cpf_unico_ok
      validar_email_unico_dup)

theorem criar_cliente_duplicado_witness:
  "criar_cliente db_exemplo 500 (create_ana\<lparr>create_cpf := ''12345678901''\<rparr>)
     = (Inl (HTTPException 400 (CpfJaCadastrado ''12345678901'')), db_exemplo)
   \<and> criar_cliente db_exemplo 500 (create_ana\<lparr>create_email := ''joao@example.com''\<rparr>)
     = (Inl (HTTPException 400 (EmailJaCadastrado ''joao@example.com'')), db_exemplo)"
  using criar_cliente_duplicado [of "create_ana\<lparr>create_cpf := ''12345678901''\<rparr>" db_exemplo 500]
    criar_cliente_duplicado [of "create_ana\<lparr>create_email := ''joao@example.com''\<rparr>" db_exemplo 500]
  by (simp add: create_ana_def db_exemplo_def cliente_maria_def cliente_joao_def)

text \<open>
  Claim C10. The cpf is validated before the email: an input whose cpf and email both
  belong to stored customers is refused with the duplicate-cpf failure.
\<close>

theorem criar_cliente_cpf_antes_do_email:
  assumes "Some (create_cpf d) \<in> set (map cpf (clientes db))"
    and "Some (create_email d) \<in> set (map email (clientes db))"
  shows "criar_cliente db agora d
           = (Inl (HTTPException 400 (CpfJaCadastrado (create_cpf d))), db)"
  using assms(1) by (simp add: criar_cliente_def validar_cpf_unico_dup)

theorem criar_cliente_cpf_antes_do_email_witness:
  "criar_cliente db_exemplo 500
      (create_ana\<lparr>create_cpf := ''12345678901'', create_email := ''joao@example.com''\<rparr>)
     = (Inl (HTTPException 400 (CpfJaCadastrado ''12345678901'')), db_exemplo)"
proof -
  let ?d = "create_ana\<lparr>create_cpf := ''12345678901'', create_email := ''joao@example.com''\<rparr>"
  have h1: "Some (create_cpf ?d) \<in> set (map cpf (clientes db_exemplo))"
    by (simp add: db_exemplo_def cliente_maria_def cliente_joao_def)
  have h2: "Some (create_email ?d) \<in> set (map email (clientes db_exemplo))"
    by (simp add: db_exemplo_def cliente_maria_def cliente_joao_def)
  show ?thesis using criar_cliente_cpf_antes_do_email [OF h1 h2, of 500] by simp
qed

text \<open>
  Claim C1, as stated, fails: an input whose cpf and email are new but whose cnpj is the
  cnpj of a stored customer violates the UNIQUE constraint of column \<^verbatim>\<open>cnpj\<close>, and the
  commit raises \<^verbatim>\<open>IntegrityError\<close>.
\<close>

theorem criar_cliente_cnpj_counterexample:
  "Some (create_cpf (create_ana\<lparr>create_cnpj := Some ''12345678000199''\<rparr>))
      \<notin> set (map cpf (clientes db_exemplo))
   \<and> Some (create_email (create_ana\<lparr>create_cnpj := Some ''12345678000199''\<rparr>))
      \<notin> set (map email (clientes db_exemplo))
   \<and> criar_cliente db_exemplo 500 (create_ana\<lparr>create_cnpj := Some ''12345678000199''\<rparr>)
      = (Inl IntegrityError, db_exemplo)"
  by (simp add: criar_cliente_def validar_cpf_unico_def validar_email_unico_def
      commit_insert_def viola_restricoes_def novo_cliente_def
      create_ana_def db_exemplo_def cliente_maria_def cliente_joao_def)

text \<open>
  Claim C1, amended. For every input of Create whose cpf and email are not among the
  stored customers', and whose cnpj is absent or not among the stored customers',
  \<^verbatim>\<open>criar_cliente\<close> succeeds: the record has a key no stored customer has, the creation
  instant, and the input's fields; it is appended to the table; and
  \<^verbatim>\<open>obter_cliente_por_id\<close> with the new key returns the same record.
\<close>

theorem criar_cliente_ok:
  assumes "Some (create_cpf d) \<notin> set (map cpf (clientes db))"
    and "Some (create_email d) \<notin> set (map email (clientes db))"
    and "create_cnpj d = None \<or> create_cnpj d \<notin> set (map cnpj (clientes db))"
  shows "\<exists>novo db'. criar_cliente db agora d = (Inr novo, db')
           \<and> id_cliente novo \<notin> set (map id_cliente (clientes db))
           \<and> data_criacao novo = agora
           \<and> novo = novo_cliente (id_cliente novo) agora d
           \<and> clientes db' = clientes db @ [novo]
           \<and> pedidos db' = pedidos db
           \<and> obter_cliente_por_id db' (id_cliente novo) = Inr novo"
proof -
  let ?novo = "novo_cliente (proximo_id db) agora d"
  let ?db' = "db\<lparr>clientes := clientes db @ [?novo]\<rparr>"
  have fresh: "proximo_id db \<notin> set (map id_cliente (clientes db))"
    by (rule proximo_id_fresh)
  have id_novo: "id_cliente ?novo = proximo_id db"
    by (simp add: novo_cliente_def)
  have "\<not> viola_restricoes ?novo (clientes db)"
    using assms fresh by (auto simp: viola_restricoes_def novo_cliente_def)
  then have res: "criar_cliente db agora d = (Inr ?novo, ?db')"
    using assms(1,2)
    by (simp add: criar_cliente_def validar_cpf_unico_ok validar_email_unico_ok commit_insert_def)
  have "find (\<lambda>c. id_cliente c = proximo_id db) (clientes db @ [?novo]) = Some ?novo"
    using fresh id_novo by (rule find_append_last)
  then have get: "obter_cliente_por_id ?db' (id_cliente ?novo) = Inr ?novo"
    by (simp add: obter_cliente_por_id_def id_novo)
  show ?thesis
    using res fresh get id_novo by (intro exI [of _ ?novo] exI [of _ ?db']) (simp add: novo_cliente_def)
qed

theorem criar_cliente_ok_witness:
  "criar_cliente db_exemplo 500 create_ana
     = (Inr (novo_cliente 3 500 create_ana),
        db_exemplo\<lparr>clientes := clientes db_exemplo @ [novo_cliente 3 500 create_ana]\<rparr>)
   \<and> obter_cliente_por_id
        (db_exemplo\<lparr>clientes := clientes db_exemplo @ [novo_cliente 3 500 create_ana]\<rparr>) 3
     = Inr (novo_cliente 3 500 create_ana)"
proof -
  have h1: "Some (create_cpf create_ana) \<notin> set (map cpf (clientes db_exemplo))"
    by (simp add: create_ana_def db_exemplo_def cliente_maria_def cliente_joao_def)
  have h2: "Some (create_email create_ana) \<notin> set (map email (clientes db_exemplo))"
    by (simp add: create_ana_def db_exemplo_def cliente_maria_def cliente_joao_def)
  have h3: "create_cnpj create_ana = None
      \<or> create_cnpj create_ana \<notin> set (map cnpj (clientes db_exemplo))"
    by (simp add: create_ana_def)
  have p: "proximo_id db_exemplo = 3"
    by (simp add: proximo_id_def db_exemplo_def cliente_maria_def cliente_joao_def)
  from criar_cliente_ok [OF h1 h2 h3, of 500]
  obtain novo db' where r: "criar_cliente db_exemplo 500 create_ana = (Inr novo, db')"
    and g: "obter_cliente_por_id db' (id_cliente novo) = Inr novo"
    by blast
  have e: "criar_cliente db_exemplo 500 create_ana
     = (Inr (novo_cliente 3 500 create_ana),
        db_exemplo\<lparr>clientes := clientes db_exemplo @ [novo_cliente 3 500 create_ana]\<rparr>)"
    using h1 h2 p
    by (simp add: criar_cliente_def validar_cpf_unico_ok validar_email_unico_ok commit_insert_def
        viola_restricoes_def novo_cliente_def create_ana_def db_exemplo_def cliente_maria_def
        cliente_joao_def)
  from r have "(Inr novo :: error + cliente, db')
      = (Inr (novo_cliente 3 500 create_ana),
         db_exemplo\<lparr>clientes := clientes db_exemplo @ [novo_cliente 3 500 create_ana]\<rparr>)"
    unfolding e by (rule sym)
  then have n: "novo = novo_cliente 3 500 create_ana"
    and d: "db' = db_exemplo\<lparr>clientes := clientes db_exemplo @ [novo_cliente 3 500 create_ana]\<rparr>"
    by simp_all
  have "id_cliente novo = 3" unfolding n by (simp add: novo_cliente_def)
  with g have "obter_cliente_por_id db' 3 = Inr novo" by simp
  then show ?thesis unfolding n d using e by simp
qed



lemma find_map_replace:
  "id_cliente obj = i \<Longrightarrow>
   find (\<lambda>c. id_cliente c = j) (map (\<lambda>c. if id_cliente c = i then obj else c) cs)
     = (if j = i then (if i \<in> set (map id_cliente cs) then Some obj else None)
        else find (\<lambda>c. id_cliente c = j) cs)"
  by (induction cs) auto

lemma obter_existe:
  "i \<in> set (map id_cliente (clientes db)) \<Longrightarrow> \<exists>c. obter_cliente_por_id db i = Inr c"
  using find_in_map [of id_cliente i "clientes db"]
  by (auto simp: obter_cliente_por_id_def split: option.splits)

section \<open>Delete\<close>



lemma atualizar_cliente_Inr:
  assumes "obter_cliente_por_id db i = Inr c"
    and "atualizar_cliente db i d = (Inr c', db')"
  shows "c' = aplicar_update c d"
    and "db' = db\<lparr>clientes := map (\<lambda>x. if id_cliente x = i then c' else x) (clientes db)\<rparr>"
proof -
  have idc: "id_cliente c = i" using assms(1) by (simp add: obter_Inr_D)
  then have ida: "id_cliente (aplicar_update c d) = i" by (simp add: aplicar_update_def)
  from assms have "commit_update db (aplicar_update c d) = (Inr c', db')"
    by (auto simp: atualizar_cliente_def split: sum.splits option.splits if_splits)
  then have "c' = aplicar_update c d \<and>
      db' = db\<lparr>clientes := map (\<lambda>x. if id_cliente x = i then c' else x) (clientes db)\<rparr>"
    using ida by (auto simp: commit_update_def split: if_splits)
  then show "c' = aplicar_update c d"
    and "db' = db\<lparr>clientes := map (\<lambda>x. if id_cliente x = i then c' else x) (clientes db)\<rparr>"
    by simp_all
qed

lemma esquema_ok_db_exemplo: "esquema_ok db_exemplo"
  by (simp add: esquema_ok_def db_exemplo_def cliente_maria_def cliente_joao_def)

lemma obter_db_exemplo:
  "obter_cliente_por_id db_exemplo 1 = Inr cliente_maria"
  "obter_cliente_por_id db_exemplo 2 = Inr cliente_joao"
  by (simp_all add: obter_cliente_por_id_def db_exemplo_def cliente_maria_def cliente_joao_def)

section \<open>Update\<close>

text \<open>
  Claim C4. For every existing customer and every update input for which
  \<^verbatim>\<open>atualizar_cliente\<close> succeeds: each of the five fields of the input that is set has its
  new value in the returned record, each one that is unset keeps its value, and the key,
  cpf, cnpj, cep and creation instant are unchanged; the returned record is the one stored
  under the key, and the other customers and the orders are as before.
\<close>

theorem atualizar_cliente_frame:
  assumes "obter_cliente_por_id db i = Inr c"
    and "atualizar_cliente db i d = (Inr c', db')"
  shows "nome c' = (case update_nome d of Unset \<Rightarrow> nome c | IsSet v \<Rightarrow> v)
       \<and> email c' = (case update_email d of Unset \<Rightarrow> email c | IsSet v \<Rightarrow> v)
       \<and> idade c' = (case update_idade d of Unset \<Rightarrow> idade c | IsSet v \<Rightarrow> v)
       \<and> telefone c' = (case update_telefone d of Unset \<Rightarrow> telefone c | IsSet v \<Rightarrow> v)
       \<and> endereco c' = (case update_endereco d of Unset \<Rightarrow> endereco c | IsSet v \<Rightarrow> v)
       \<and> id_cliente c' = id_cliente c \<and> cpf c' = cpf c \<and> cnpj c' = cnpj c \<and> cep c' = cep c
       \<and> data_criacao c' = data_criacao c
       \<and> obter_cliente_por_id db' i = Inr c'
       \<and> (\<forall>j. j \<noteq> i \<longrightarrow> obter_cliente_por_id db' j = obter_cliente_por_id db j)
       \<and> pedidos db' = pedidos db"
proof -
  note r = atualizar_cliente_Inr [OF assms]
  have idc: "id_cliente c = i" and mem: "c \<in> set (clientes db)"
    using assms(1) by (simp_all add: obter_Inr_D)
  have idc': "id_cliente c' = i" using r(1) idc by (simp add: aplicar_update_def)
  have ex: "i \<in> set (map id_cliente (clientes db))" using mem idc by force
  have fields: "nome c' = (case update_nome d of Unset \<Rightarrow> nome c | IsSet v \<Rightarrow> v)
       \<and> email c' = (case update_email d of Unset \<Rightarrow> email c | IsSet v \<Rightarrow> v)
       \<and> idade c' = (case update_idade d of Unset \<Rightarrow> idade c | IsSet v \<Rightarrow> v)
       \<and> telefone c' = (case update_telefone d of Unset \<Rightarrow> telefone c | IsSet v \<Rightarrow> v)
       \<and> endereco c' = (case update_endereco d of Unset \<Rightarrow> endereco c | IsSet v \<Rightarrow> v)
       \<and> id_cliente c' = id_cliente c \<and> cpf c' = cpf c \<and> cnpj c' = cnpj c \<and> cep c' = cep c
       \<and> data_criacao c' = data_criacao c"
    unfolding r(1) by (simp add: aplicar_update_def split: campo.splits)
  have stored: "obter_cliente_por_id db' i = Inr c'"
    using idc' ex by (subst r(2)) (simp add: obter_cliente_por_id_def find_map_replace)
  have others: "\<forall>j. j \<noteq> i \<longrightarrow> obter_cliente_por_id db' j = obter_cliente_por_id db j"
    using idc' by (subst r(2)) (simp add: obter_cliente_por_id_def find_map_replace)
  have ped: "pedidos db' = pedidos db" by (subst r(2)) simp
  from fields stored others ped show ?thesis by simp
qed

theorem atualizar_cliente_frame_witness:
  "atualizar_cliente db_exemplo 1
      (update_vazio\<lparr>update_idade := IsSet None, update_telefone := IsSet (Some ''11999990000'')\<rparr>)
     = (Inr (cliente_maria\<lparr>idade := None, telefone := Some ''11999990000''\<rparr>),
        \<lparr>clientes = [cliente_maria\<lparr>idade := None, telefone := Some ''11999990000''\<rparr>,
                      cliente_joao],
         pedidos = [pedido_1]\<rparr>)
   \<and> nome (cliente_maria\<lparr>idade := None, telefone := Some ''11999990000''\<rparr>) = nome cliente_maria
   \<and> idade (cliente_maria\<lparr>idade := None, telefone := Some ''11999990000''\<rparr>) = None
   \<and> obter_cliente_por_id
        \<lparr>clientes = [cliente_maria\<lparr>idade := None, telefone := Some ''11999990000''\<rparr>,
                      cliente_joao],
         pedidos = [pedido_1]\<rparr> 1
       = Inr (cliente_maria\<lparr>idade := None, telefone := Some ''11999990000''\<rparr>)"
proof -
  let ?d = "update_vazio\<lparr>update_idade := IsSet None,
                          update_telefone := IsSet (Some ''11999990000'')\<rparr>"
  let ?c = "cliente_maria\<lparr>idade := None, telefone := Some ''11999990000''\<rparr>"
  let ?db = "\<lparr>clientes = [?c, cliente_joao], pedidos = [pedido_1]\<rparr>"
  have r: "atualizar_cliente db_exemplo 1 ?d = (Inr ?c, ?db)"
    by (simp add: atualizar_cliente_def obter_cliente_por_id_def commit_update_def
        cabe_em_INTEGER_def INTEGER_MIN_def INTEGER_MAX_def
        aplicar_update_def viola_restricoes_def update_vazio_def db_exemplo_def
        cliente_maria_def cliente_joao_def)
  have n: "update_nome ?d = Unset" and i: "update_idade ?d = IsSet None"
    by (simp_all add: update_vazio_def)
  from atualizar_cliente_frame [OF obter_db_exemplo(1) r]
  have "nome ?c = nome cliente_maria" and "idade ?c = None"
    and "obter_cliente_por_id ?db 1 = Inr ?c"
    unfolding n i by (simp_all add: db_exemplo_def)
  with r show ?thesis by simp
qed

lemma distinct_map_others:
  assumes "distinct (map f cs)" and "c \<in> set cs"
  shows "f c \<notin> set (map f (filter (\<lambda>x. id_cliente x \<noteq> id_cliente c) cs))"
proof
  assume "f c \<in> set (map f (filter (\<lambda>x. id_cliente x \<noteq> id_cliente c) cs))"
  then obtain x where x: "x \<in> set cs" "id_cliente x \<noteq> id_cliente c" "f x = f c"
    by auto
  from assms(1) have "inj_on f (set cs)" by (simp add: distinct_map)
  with x(1,3) assms(2) have "x = c" by (auto dest: inj_onD)
  with x(2) show False by simp
qed

lemma esquema_ok_cnpj_others:
  assumes "esquema_ok db" and "c \<in> set (clientes db)" and "cnpj c \<noteq> None"
  shows "cnpj c \<notin> set (map cnpj (filter (\<lambda>x. id_cliente x \<noteq> id_cliente c) (clientes db)))"
proof
  assume "cnpj c \<in> set (map cnpj (filter (\<lambda>x. id_cliente x \<noteq> id_cliente c) (clientes db)))"
  then obtain x where x: "x \<in> set (clientes db)" "id_cliente x \<noteq> id_cliente c" "cnpj x = cnpj c"
    by auto
  from assms(1) have "inj_on cnpj (set (filter (\<lambda>c. cnpj c \<noteq> None) (clientes db)))"
    by (simp add: esquema_ok_def distinct_map)
  moreover have "x \<in> set (filter (\<lambda>c. cnpj c \<noteq> None) (clientes db))"
    and "c \<in> set (filter (\<lambda>c. cnpj c \<noteq> None) (clientes db))"
    using x assms by simp_all
  ultimately have "x = c" using x(3) by (auto dest: inj_onD)
  with x(2) show False by simp
qed

lemma esquema_ok_unico_id:
  assumes "esquema_ok db" and "c \<in> set (clientes db)" and "x \<in> set (clientes db)"
    and "id_cliente x = id_cliente c"
  shows "x = c"
proof -
  from assms(1) have "inj_on id_cliente (set (clientes db))"
    by (simp add: esquema_ok_def distinct_map)
  with assms(2-4) show ?thesis by (auto dest: inj_onD)
qed

lemma esquema_ok_not_null:
  assumes "esquema_ok db" and "c \<in> set (clientes db)"
  shows "nome c \<noteq> None" and "email c \<noteq> None" and "cpf c \<noteq> None"
proof -
  from assms(2) have "nome c \<in> set (map nome (clientes db))"
    and "email c \<in> set (map email (clientes db))"
    and "cpf c \<in> set (map cpf (clientes db))"
    by simp_all
  moreover from assms(1) have "None \<notin> set (map nome (clientes db))"
    and "None \<notin> set (map email (clientes db))"
    and "None \<notin> set (map cpf (clientes db))"
    unfolding esquema_ok_def by blast+
  ultimately show "nome c \<noteq> None" and "email c \<noteq> None" and "cpf c \<noteq> None"
    by metis+
qed

lemma commit_update_ok:
  assumes ok: "esquema_ok db" and mem: "c \<in> set (clientes db)"
    and obj: "id_cliente obj = id_cliente c" "cpf obj = cpf c" "cnpj obj = cnpj c"
    and nn: "nome obj \<noteq> None" "email obj \<noteq> None"
    and ci: "cabe_em_INTEGER (idade obj)"
    and em: "email obj \<notin> set (map email (filter (\<lambda>x. id_cliente x \<noteq> id_cliente c) (clientes db)))"
  shows "commit_update db obj
           = (Inr obj, db\<lparr>clientes := map (\<lambda>x. if id_cliente x = id_cliente c then obj else x)
                                       (clientes db)\<rparr>)"
proof -
  let ?outros = "filter (\<lambda>x. id_cliente x \<noteq> id_cliente c) (clientes db)"
  have "cpf c \<noteq> None" using ok mem by (rule esquema_ok_not_null)
  moreover have "id_cliente c \<notin> set (map id_cliente ?outros)" by auto
  moreover have "cpf c \<notin> set (map cpf ?outros)"
    using ok mem by (intro distinct_map_others) (simp_all add: esquema_ok_def)
  moreover have "cnpj c \<noteq> None \<longrightarrow> cnpj c \<notin> set (map cnpj ?outros)"
    using esquema_ok_cnpj_others [OF ok mem] by blast
  ultimately have "\<not> viola_restricoes obj ?outros"
    using obj nn em unfolding viola_restricoes_def by auto
  with ci show ?thesis by (simp add: commit_update_def obj(1))
qed

lemma aplicar_update_fixos:
  "id_cliente (aplicar_update c d) = id_cliente c"
  "cpf (aplicar_update c d) = cpf c"
  "cnpj (aplicar_update c d) = cnpj c"
  by (simp_all add: aplicar_update_def)


text \<open>
  What the update does with a supplied email \<open>e\<close> in a database that satisfies its
  schema: a non-empty \<open>e\<close> that is the email of a different stored customer is refused
  with HTTP 400 and the duplicate-email detail, the database left as it was; with the
  customer's own current email the update is never refused as a duplicate, and it
  succeeds when the input does not set \<^verbatim>\<open>nome\<close> to null and the age left in the
  record fits the INTEGER column.
\<close>

lemma atualizar_cliente_email:
  assumes "esquema_ok db" and "obter_cliente_por_id db i = Inr c"
    and "update_email d = IsSet (Some e)"
  shows "(e \<noteq> [] \<and> Some e \<in> set (map email (filter (\<lambda>x. id_cliente x \<noteq> i) (clientes db))) \<longrightarrow>
            atualizar_cliente db i d = (Inl (HTTPException 400 (EmailJaCadastrado e)), db))
       \<and> (email c = Some e \<longrightarrow>
            (\<forall>v. fst (atualizar_cliente db i d) \<noteq> Inl (HTTPException 400 (EmailJaCadastrado v)))
            \<and> (update_nome d \<noteq> IsSet None
                 \<and> cabe_em_INTEGER (setattr_campo (update_idade d) (idade c)) \<longrightarrow>
                 (\<exists>c' db'. atualizar_cliente db i d = (Inr c', db') \<and> email c' = Some e
                    \<and> obter_cliente_por_id db' i = Inr c')))"
proof -
  have idc: "id_cliente c = i" and mem: "c \<in> set (clientes db)"
    using assms(2) by (simp_all add: obter_Inr_D)
  let ?outros = "filter (\<lambda>x. id_cliente x \<noteq> i) (clientes db)"
  have own: "email c \<notin> set (map email ?outros)"
    using distinct_map_others [of email "clientes db" c] assms(1) mem idc
    by (simp add: esquema_ok_def)
  have A: "atualizar_cliente db i d = (Inl (HTTPException 400 (EmailJaCadastrado e)), db)"
    if "e \<noteq> []" and "Some e \<in> set (map email ?outros)"
  proof -
    from that(2) own have "Some e \<noteq> email c" by auto
    moreover from that(2) have "Some e \<in> set (map email (clientes db))" by auto
    ultimately show ?thesis
      using assms(2,3) that(1)
      by (simp add: atualizar_cliente_def validar_email_unico_dup)
  qed
  have run: "atualizar_cliente db i d = commit_update db (aplicar_update c d)"
    if "email c = Some e"
    using assms(2,3) that by (simp add: atualizar_cliente_def)
  have B1: "fst (atualizar_cliente db i d) \<noteq> Inl (HTTPException 400 (EmailJaCadastrado v))"
    if "email c = Some e" for v
    unfolding run [OF that] by (simp add: commit_update_def)
  have B2: "\<exists>c' db'. atualizar_cliente db i d = (Inr c', db') \<and> email c' = Some e
      \<and> obter_cliente_por_id db' i = Inr c'"
    if eq: "email c = Some e" and nn: "update_nome d \<noteq> IsSet None"
      and ci: "cabe_em_INTEGER (setattr_campo (update_idade d) (idade c))"
  proof -
    let ?obj = "aplicar_update c d"
    have ci': "cabe_em_INTEGER (idade ?obj)" using ci by (simp add: aplicar_update_def)
    have "nome c \<noteq> None" using assms(1) mem by (rule esquema_ok_not_null)
    with nn have n: "nome ?obj \<noteq> None"
      by (cases "update_nome d") (simp_all add: aplicar_update_def)
    have e: "email ?obj = Some e" using assms(3) by (simp add: aplicar_update_def)
    have "email ?obj \<notin> set (map email (filter (\<lambda>x. id_cliente x \<noteq> id_cliente c) (clientes db)))"
      using own eq e idc by simp
    with n e ci' have c: "commit_update db ?obj
        = (Inr ?obj, db\<lparr>clientes := map (\<lambda>x. if id_cliente x = id_cliente c then ?obj else x)
                                       (clientes db)\<rparr>)"
      using assms(1) mem by (intro commit_update_ok) (simp_all add: aplicar_update_fixos)
    have "i \<in> set (map id_cliente (clientes db))" using mem idc by force
    then have "obter_cliente_por_id
        (db\<lparr>clientes := map (\<lambda>x. if id_cliente x = id_cliente c then ?obj else x)
                                       (clientes db)\<rparr>) i = Inr ?obj"
      using idc by (simp add: obter_cliente_por_id_def find_map_replace aplicar_update_fixos)
    with c e show ?thesis unfolding run [OF eq] by simp
  qed
  from A B1 B2 show ?thesis by blast
qed

section \<open>UpdateEmail\<close>




section \<open>The fields an update accepts\<close>

lemma atualizar_cliente_commit:
  assumes "obter_cliente_por_id db i = Inr c"
    and "attr (update_email d) = None \<or> attr (update_email d) = email c
         \<or> attr (update_email d) \<notin> set (map email (clientes db))"
  shows "atualizar_cliente db i d = commit_update db (aplicar_update c d)"
proof (cases "attr (update_email d)")
  case None
  with assms(1) show ?thesis by (simp add: atualizar_cliente_def)
next
  case (Some v)
  show ?thesis
  proof (cases "v \<noteq> [] \<and> Some v \<noteq> email c")
    case True
    with assms(2) Some have "Some v \<notin> set (map email (clientes db))" by auto
    then have "validar_email_unico db v = Inr ()" by (rule validar_email_unico_ok)
    with assms(1) Some True show ?thesis by (simp add: atualizar_cliente_def)
  next
    case False
    with assms(1) Some show ?thesis by (auto simp: atualizar_cliente_def)
  qed
qed

lemma email_fora_da_tabela:
  assumes ok: "esquema_ok db" and g: "obter_cliente_por_id db i = Inr c"
    and o: "v \<notin> set (map email (filter (\<lambda>x. id_cliente x \<noteq> i) (clientes db)))"
    and d: "v \<noteq> email c"
  shows "v \<notin> set (map email (clientes db))"
proof
  assume "v \<in> set (map email (clientes db))"
  then obtain x where x: "x \<in> set (clientes db)" "email x = v" by auto
  have idc: "id_cliente c = i" and mem: "c \<in> set (clientes db)"
    using g by (simp_all add: obter_Inr_D)
  show False
  proof (cases "id_cliente x = i")
    case True
    with ok mem x(1) idc have "x = c" by (simp add: esquema_ok_unico_id)
    with x(2) d show False by simp
  next
    case False
    with x have "v \<in> set (map email (filter (\<lambda>x. id_cliente x \<noteq> i) (clientes db)))" by auto
    with o show False by simp
  qed
qed

text \<open>
  Claim C9, as stated, fails for the subsets that hold cpf, cnpj or cep.
  \<^verbatim>\<open>ClienteUpdate\<close> declares no such field: no update input writes exactly the key
  \<^verbatim>\<open>cpf\<close>; a request body that supplies only \<^verbatim>\<open>cpf\<close> validates, whatever the email
  validator, to the input with no field set; and the update with that input answers with
  the unchanged record, whose cpf is still the old one.
\<close>

theorem atualizar_cliente_cpf_counterexample:
  "\<not> (\<exists>d. update_data_keys d = {Cpf})
   \<and> (\<forall>validate_email.
         validar_ClienteUpdate validate_email
           (corpo_vazio\<lparr>corpo_cpf := IsSet (Some ''00000000000'')\<rparr>)
         = Some update_vazio)
   \<and> atualizar_cliente db_exemplo 1 update_vazio = (Inr cliente_maria, db_exemplo)
   \<and> cpf cliente_maria = Some ''12345678901''"
proof -
  have "update_data_keys d \<noteq> {Cpf}" for d
  proof
    assume "update_data_keys d = {Cpf}"
    then have "Cpf \<in> update_data_keys d" by simp
    then show False by (simp add: update_data_keys_def split: if_splits)
  qed
  then have "\<not> (\<exists>d. update_data_keys d = {Cpf})" by simp
  moreover have "validar_ClienteUpdate validate_email
           (corpo_vazio\<lparr>corpo_cpf := IsSet (Some ''00000000000'')\<rparr>)
         = Some update_vazio" for validate_email
    by (simp add: validar_ClienteUpdate_def corpo_vazio_def update_vazio_def)
  moreover have "atualizar_cliente db_exemplo 1 update_vazio = (Inr cliente_maria, db_exemplo)"
    by (simp add: atualizar_cliente_def obter_cliente_por_id_def commit_update_def
        cabe_em_INTEGER_def INTEGER_MIN_def INTEGER_MAX_def
        aplicar_update_def viola_restricoes_def update_vazio_def
        db_exemplo_def cliente_maria_def cliente_joao_def)
  moreover have "cpf cliente_maria = Some ''12345678901''" by (simp add: cliente_maria_def)
  ultimately show ?thesis by simp
qed

text \<open>
  Claim C9, amended. \<^verbatim>\<open>atualizar_cliente\<close> accepts any subset of the five fields name,
  email, age, phone and address: in a database that satisfies its schema, for every
  existing customer, every such subset \<open>S\<close> and all values for its fields (the email, when
  supplied, not being another customer's, and the age left in the record fitting the
  INTEGER column), the input that supplies exactly the fields of \<open>S\<close> is accepted, and the
  stored record has the supplied values in the fields of \<open>S\<close> and the old values
  elsewhere: in the other fields of the five, and in the key, cpf, cnpj, cep and creation
  instant, which no update input can name.
\<close>

theorem atualizar_cliente_subconjuntos:
  assumes "esquema_ok db" and "obter_cliente_por_id db i = Inr c"
    and "S \<subseteq> {Nome, Email, Idade, Telefone, Endereco}"
    and "Some e \<notin> set (map email (filter (\<lambda>x. id_cliente x \<noteq> i) (clientes db)))"
    and "cabe_em_INTEGER (if Idade \<in> S then a else idade c)"
  shows "update_data_keys (montar_update S n e a t en) = S
       \<and> (\<exists>c' db'. atualizar_cliente db i (montar_update S n e a t en) = (Inr c', db')
            \<and> obter_cliente_por_id db' i = Inr c'
            \<and> nome c' = (if Nome \<in> S then Some n else nome c)
            \<and> email c' = (if Email \<in> S then Some e else email c)
            \<and> idade c' = (if Idade \<in> S then a else idade c)
            \<and> telefone c' = (if Telefone \<in> S then t else telefone c)
            \<and> endereco c' = (if Endereco \<in> S then en else endereco c)
            \<and> id_cliente c' = id_cliente c \<and> cpf c' = cpf c \<and> cnpj c' = cnpj c
            \<and> cep c' = cep c \<and> data_criacao c' = data_criacao c)"
proof -
  let ?d = "montar_update S n e a t en"
  let ?obj = "aplicar_update c ?d"
  let ?db' = "db\<lparr>clientes := map (\<lambda>x. if id_cliente x = id_cliente c then ?obj else x)
                                 (clientes db)\<rparr>"
  have idc: "id_cliente c = i" and mem: "c \<in> set (clientes db)"
    using assms(2) by (simp_all add: obter_Inr_D)
  have keys: "update_data_keys ?d = S"
    using assms(3) by (auto simp: update_data_keys_def montar_update_def)
  have own: "email c \<notin> set (map email (filter (\<lambda>x. id_cliente x \<noteq> i) (clientes db)))"
    using distinct_map_others [of email "clientes db" c] assms(1) mem idc
    by (simp add: esquema_ok_def)
  have "attr (update_email ?d) = None \<or> attr (update_email ?d) = email c
         \<or> attr (update_email ?d) \<notin> set (map email (clientes db))"
  proof (cases "Email \<in> S \<and> Some e \<noteq> email c")
    case True
    then have "Some e \<noteq> email c" by simp
    with assms(1,2,4) have "Some e \<notin> set (map email (clientes db))"
      by (rule email_fora_da_tabela)
    with True show ?thesis by (simp add: montar_update_def)
  next
    case False
    then show ?thesis by (auto simp: montar_update_def)
  qed
  with assms(2) have run: "atualizar_cliente db i ?d = commit_update db ?obj"
    by (rule atualizar_cliente_commit)
  have nn: "nome c \<noteq> None" "email c \<noteq> None"
    using assms(1) mem by (rule esquema_ok_not_null)+
  have fields: "nome ?obj = (if Nome \<in> S then Some n else nome c)"
    "email ?obj = (if Email \<in> S then Some e else email c)"
    "idade ?obj = (if Idade \<in> S then a else idade c)"
    "telefone ?obj = (if Telefone \<in> S then t else telefone c)"
    "endereco ?obj = (if Endereco \<in> S then en else endereco c)"
    "id_cliente ?obj = id_cliente c" "cpf ?obj = cpf c" "cnpj ?obj = cnpj c"
    "cep ?obj = cep c" "data_criacao ?obj = data_criacao c"
    by (simp_all add: aplicar_update_def montar_update_def)
  have "email ?obj \<notin> set (map email (filter (\<lambda>x. id_cliente x \<noteq> id_cliente c) (clientes db)))"
    using own assms(4) idc fields(2) by simp
  moreover have "nome ?obj \<noteq> None" "email ?obj \<noteq> None"
    using nn fields(1,2) by simp_all
  moreover have "cabe_em_INTEGER (idade ?obj)"
    using assms(5) fields(3) by simp
  ultimately have c: "commit_update db ?obj = (Inr ?obj, ?db')"
    using assms(1) mem by (intro commit_update_ok) (simp_all add: aplicar_update_fixos)
  have "i \<in> set (map id_cliente (clientes db))" using mem idc by force
  then have "obter_cliente_por_id ?db' i = Inr ?obj"
    using idc by (simp add: obter_cliente_por_id_def find_map_replace aplicar_update_fixos)
  with c run fields keys show ?thesis by simp
qed

theorem atualizar_cliente_subconjuntos_witness:
  "update_data_keys (montar_update {Nome, Idade} ''Maria Souza'' ''x@example.com'' (Some 31) None None)
     = {Nome, Idade}
   \<and> atualizar_cliente db_exemplo 1
        (montar_update {Nome, Idade} ''Maria Souza'' ''x@example.com'' (Some 31) None None)
     = (Inr (cliente_maria\<lparr>nome := Some ''Maria Souza'', idade := Some 31\<rparr>),
        \<lparr>clientes = [cliente_maria\<lparr>nome := Some ''Maria Souza'', idade := Some 31\<rparr>,
                      cliente_joao],
         pedidos = [pedido_1]\<rparr>)"
proof -
  have s: "{Nome, Idade} \<subseteq> {Nome, Email, Idade, Telefone, Endereco}" by simp
  have e: "Some ''x@example.com''
      \<notin> set (map email (filter (\<lambda>x. id_cliente x \<noteq> 1) (clientes db_exemplo)))"
    by (simp add: db_exemplo_def cliente_maria_def cliente_joao_def)
  have a: "cabe_em_INTEGER (if Idade \<in> {Nome, Idade} then Some 31 else idade cliente_maria)"
    by (simp add: cabe_em_INTEGER_def INTEGER_MIN_def INTEGER_MAX_def)
  have r: "atualizar_cliente db_exemplo 1
        (montar_update {Nome, Idade} ''Maria Souza'' ''x@example.com'' (Some 31) None None)
     = (Inr (cliente_maria\<lparr>nome := Some ''Maria Souza'', idade := Some 31\<rparr>),
        \<lparr>clientes = [cliente_maria\<lparr>nome := Some ''Maria Souza'', idade := Some 31\<rparr>,
                      cliente_joao],
         pedidos = [pedido_1]\<rparr>)"
    by (simp add: atualizar_cliente_def obter_cliente_por_id_def commit_update_def
        cabe_em_INTEGER_def INTEGER_MIN_def INTEGER_MAX_def
        aplicar_update_def viola_restricoes_def montar_update_def
        db_exemplo_def cliente_maria_def cliente_joao_def)
  from atualizar_cliente_subconjuntos [OF esquema_ok_db_exemplo obter_db_exemplo(1) s e a,
      of "''Maria Souza''" None None]
  have "update_data_keys
      (montar_update {Nome, Idade} ''Maria Souza'' ''x@example.com'' (Some 31) None None)
     = {Nome, Idade}"
    by (rule conjunct1)
  with r show ?thesis by simp
qed

section \<open>The uniqueness invariant\<close>

lemma esquema_ok_commit_insert:
  assumes "esquema_ok db"
  shows "esquema_ok (snd (commit_insert db novo))"
proof (cases "viola_restricoes novo (clientes db)")
  case True
  with assms show ?thesis by (simp add: commit_insert_def)
next
  case False
  then have nn: "nome novo \<noteq> None" "email novo \<noteq> None" "cpf novo \<noteq> None"
    and i: "id_cliente novo \<notin> set (map id_cliente (clientes db))"
    and e: "email novo \<notin> set (map email (clientes db))"
    and p: "cpf novo \<notin> set (map cpf (clientes db))"
    and j: "cnpj novo \<noteq> None \<longrightarrow> cnpj novo \<notin> set (map cnpj (clientes db))"
    by (auto simp: viola_restricoes_def)
  from assms have o: "None \<notin> set (map nome (clientes db))"
    "None \<notin> set (map email (clientes db))"
    "None \<notin> set (map cpf (clientes db))"
    "distinct (map id_cliente (clientes db))"
    "distinct (map email (clientes db))"
    "distinct (map cpf (clientes db))"
    "distinct (map cnpj (filter (\<lambda>c. cnpj c \<noteq> None) (clientes db)))"
    by (simp_all add: esquema_ok_def)
  have 1: "None \<notin> set (map nome (clientes db @ [novo]))" using o(1) nn(1) by auto
  have 2: "None \<notin> set (map email (clientes db @ [novo]))" using o(2) nn(2) by auto
  have 3: "None \<notin> set (map cpf (clientes db @ [novo]))" using o(3) nn(3) by auto
  have 4: "distinct (map id_cliente (clientes db @ [novo]))" using o(4) i by simp
  have 5: "distinct (map email (clientes db @ [novo]))" using o(5) e by simp
  have 6: "distinct (map cpf (clientes db @ [novo]))" using o(6) p by simp
  have 7: "distinct (map cnpj (filter (\<lambda>c. cnpj c \<noteq> None) (clientes db @ [novo])))"
    using o(7) j by auto
  from 1 2 3 4 5 6 7 have "esquema_ok (db\<lparr>clientes := clientes db @ [novo]\<rparr>)"
    unfolding esquema_ok_def by simp
  with False show ?thesis by (simp add: commit_insert_def)
qed

lemma distinct_substituir:
  assumes "distinct (map f (filter Q (xs @ c # ys)))"
    and "Q obj \<longrightarrow> f obj \<notin> set (map f (xs @ ys))"
  shows "distinct (map f (filter Q (xs @ obj # ys)))"
proof (cases "Q obj")
  case True
  with assms(2) have "f obj \<notin> set (map f (filter Q xs))" "f obj \<notin> set (map f (filter Q ys))"
    by auto
  moreover from assms(1) have "distinct (map f (filter Q xs))" "distinct (map f (filter Q ys))"
    "set (map f (filter Q xs)) \<inter> set (map f (filter Q ys)) = {}"
    by (auto split: if_splits)
  ultimately show ?thesis using True by simp
next
  case False
  from assms(1) have "distinct (map f (filter Q xs))" "distinct (map f (filter Q ys))"
    "set (map f (filter Q xs)) \<inter> set (map f (filter Q ys)) = {}"
    by (auto split: if_splits)
  with False show ?thesis by simp
qed

lemma esquema_ok_substituir:
  assumes ok: "esquema_ok (db\<lparr>clientes := xs @ c # ys\<rparr>)"
    and idc: "id_cliente obj = id_cliente c"
    and nv: "\<not> viola_restricoes obj (xs @ ys)"
  shows "esquema_ok (db\<lparr>clientes := xs @ obj # ys\<rparr>)"
proof -
  from nv have nn: "nome obj \<noteq> None" "email obj \<noteq> None" "cpf obj \<noteq> None"
    and e: "email obj \<notin> set (map email (xs @ ys))"
    and p: "cpf obj \<notin> set (map cpf (xs @ ys))"
    and j: "cnpj obj \<noteq> None \<longrightarrow> cnpj obj \<notin> set (map cnpj (xs @ ys))"
    by (auto simp: viola_restricoes_def)
  from ok have o: "None \<notin> set (map nome (xs @ c # ys))"
    "None \<notin> set (map email (xs @ c # ys))"
    "None \<notin> set (map cpf (xs @ c # ys))"
    "distinct (map id_cliente (xs @ c # ys))"
    "distinct (map email (filter (\<lambda>c. True) (xs @ c # ys)))"
    "distinct (map cpf (filter (\<lambda>c. True) (xs @ c # ys)))"
    "distinct (map cnpj (filter (\<lambda>c. cnpj c \<noteq> None) (xs @ c # ys)))"
    by (simp_all add: esquema_ok_def)
  have 1: "None \<notin> set (map nome (xs @ obj # ys))" using o(1) nn(1) by auto
  have 2: "None \<notin> set (map email (xs @ obj # ys))" using o(2) nn(2) by auto
  have 3: "None \<notin> set (map cpf (xs @ obj # ys))" using o(3) nn(3) by auto
  have 4: "distinct (map id_cliente (xs @ obj # ys))" using o(4) idc by simp
  have "distinct (map email (filter (\<lambda>c. True) (xs @ obj # ys)))"
    using o(5) by (rule distinct_substituir) (use e in simp)
  then have 5: "distinct (map email (xs @ obj # ys))" by simp
  have "distinct (map cpf (filter (\<lambda>c. True) (xs @ obj # ys)))"
    using o(6) by (rule distinct_substituir) (use p in simp)
  then have 6: "distinct (map cpf (xs @ obj # ys))" by simp
  have 7: "distinct (map cnpj (filter (\<lambda>c. cnpj c \<noteq> None) (xs @ obj # ys)))"
    using o(7) j by (rule distinct_substituir)
  from 1 2 3 4 5 6 7 show ?thesis unfolding esquema_ok_def by simp
qed

lemma esquema_ok_commit_update:
  assumes "esquema_ok db"
  shows "esquema_ok (snd (commit_update db obj))"
proof (cases "viola_restricoes obj (filter (\<lambda>c. id_cliente c \<noteq> id_cliente obj) (clientes db))")
  case True
  with assms show ?thesis by (simp add: commit_update_def)
next
  case nv: False
  let ?f = "\<lambda>c. if id_cliente c = id_cliente obj then obj else c"
  show ?thesis
  proof (cases "id_cliente obj \<in> set (map id_cliente (clientes db))")
    case False
    then have "?f x = x" if "x \<in> set (clientes db)" for x
    proof -
      from that have "id_cliente x \<in> set (map id_cliente (clientes db))" by simp
      with False have "id_cliente x \<noteq> id_cliente obj" by metis
      then show ?thesis by simp
    qed
    then have "map ?f (clientes db) = clientes db"
      by (rule map_idI)
    with nv assms show ?thesis by (simp add: commit_update_def)
  next
    case True
    then obtain c where c: "c \<in> set (clientes db)" "id_cliente c = id_cliente obj" by auto
    then obtain xs ys where split: "clientes db = xs @ c # ys"
      by (auto dest: split_list)
    from assms have "distinct (map id_cliente (clientes db))" by (simp add: esquema_ok_def)
    with split c(2) have out: "id_cliente obj \<notin> set (map id_cliente xs)"
      "id_cliente obj \<notin> set (map id_cliente ys)"
      by auto
    have dif: "id_cliente x \<noteq> id_cliente obj" if "x \<in> set xs \<or> x \<in> set ys" for x
    proof -
      from that have "id_cliente x \<in> set (map id_cliente xs) \<or> id_cliente x \<in> set (map id_cliente ys)"
        by auto
      with out show ?thesis by metis
    qed
    then have fxs: "filter (\<lambda>c. id_cliente c \<noteq> id_cliente obj) xs = xs"
      and fys: "filter (\<lambda>c. id_cliente c \<noteq> id_cliente obj) ys = ys"
      by (simp_all add: filter_id_conv)
    have "?f x = x" if "x \<in> set xs \<or> x \<in> set ys" for x
      using dif [OF that] by simp
    then have mxs: "map ?f xs = xs" and mys: "map ?f ys = ys"
      by (simp_all add: map_idI)
    have outros: "filter (\<lambda>c. id_cliente c \<noteq> id_cliente obj) (clientes db) = xs @ ys"
      using fxs fys c(2) by (simp add: split)
    have novo: "map ?f (clientes db) = xs @ obj # ys"
      using mxs mys c(2) by (simp add: split)
    from assms have "esquema_ok (db\<lparr>clientes := xs @ c # ys\<rparr>)"
      by (simp add: esquema_ok_def split)
    moreover from nv have "\<not> viola_restricoes obj (xs @ ys)" unfolding outros .
    ultimately have "esquema_ok (db\<lparr>clientes := xs @ obj # ys\<rparr>)"
      by (rule esquema_ok_substituir [OF _ c(2) [symmetric]])
    with nv novo assms show ?thesis by (simp add: commit_update_def)
  qed
qed

lemma esquema_ok_commit_delete:
  assumes "esquema_ok db"
  shows "esquema_ok (commit_delete db c)"
proof -
  let ?P = "\<lambda>x. id_cliente x \<noteq> id_cliente c"
  from assms have o: "None \<notin> set (map nome (clientes db))"
    "None \<notin> set (map email (clientes db))"
    "None \<notin> set (map cpf (clientes db))"
    "distinct (map id_cliente (clientes db))"
    "distinct (map email (clientes db))"
    "distinct (map cpf (clientes db))"
    "distinct (map cnpj (filter (\<lambda>c. cnpj c \<noteq> None) (clientes db)))"
    by (simp_all add: esquema_ok_def)
  have 1: "None \<notin> set (map nome (filter ?P (clientes db)))" using o(1) by auto
  have 2: "None \<notin> set (map email (filter ?P (clientes db)))" using o(2) by auto
  have 3: "None \<notin> set (map cpf (filter ?P (clientes db)))" using o(3) by auto
  have 4: "distinct (map id_cliente (filter ?P (clientes db)))"
    using o(4) by (rule distinct_map_filter)
  have 5: "distinct (map email (filter ?P (clientes db)))"
    using o(5) by (rule distinct_map_filter)
  have 6: "distinct (map cpf (filter ?P (clientes db)))"
    using o(6) by (rule distinct_map_filter)
  have "filter (\<lambda>c. cnpj c \<noteq> None) (filter ?P (clientes db))
      = filter ?P (filter (\<lambda>c. cnpj c \<noteq> None) (clientes db))"
    by (simp add: conj_commute)
  moreover have "distinct (map cnpj (filter ?P (filter (\<lambda>c. cnpj c \<noteq> None) (clientes db))))"
    using o(7) by (rule distinct_map_filter)
  ultimately
  have 7: "distinct (map cnpj (filter (\<lambda>c. cnpj c \<noteq> None) (filter ?P (clientes db))))"
    by (simp only:)
  from 1 2 3 4 5 6 7 show ?thesis unfolding esquema_ok_def commit_delete_def by simp
qed

lemma criar_cliente_snd:
  "snd (criar_cliente db agora d) = db
   \<or> snd (criar_cliente db agora d)
       = snd (commit_insert db (novo_cliente (proximo_id db) agora d))"
  by (simp add: criar_cliente_def split: sum.splits)

lemma atualizar_cliente_snd:
  "snd (atualizar_cliente db i d) = db
   \<or> (\<exists>obj. snd (atualizar_cliente db i d) = snd (commit_update db obj))"
proof (cases "obter_cliente_por_id db i")
  case (Inl e)
  then show ?thesis by (simp add: atualizar_cliente_def)
next
  case (Inr c)
  show ?thesis
  proof (cases "fst (atualizar_cliente db i d) = fst (commit_update db (aplicar_update c d))
      \<and> snd (atualizar_cliente db i d) = snd (commit_update db (aplicar_update c d))")
    case True
    then show ?thesis by blast
  next
    case False
    with Inr have "snd (atualizar_cliente db i d) = db"
      by (simp add: atualizar_cliente_def split: sum.splits option.splits if_splits)
    then show ?thesis by simp
  qed
qed

lemma atualizar_email_snd:
  "snd (atualizar_email db i e) = db
   \<or> (\<exists>obj. snd (atualizar_email db i e) = snd (commit_update db obj))"
proof (cases "obter_cliente_por_id db i")
  case (Inl x)
  then show ?thesis by (simp add: atualizar_email_def)
next
  case (Inr c)
  show ?thesis
  proof (cases "snd (atualizar_email db i e) = snd (commit_update db (c\<lparr>email := Some e\<rparr>))")
    case True
    then show ?thesis by blast
  next
    case False
    with Inr have "snd (atualizar_email db i e) = db"
      by (simp add: atualizar_email_def split: sum.splits if_splits)
    then show ?thesis by simp
  qed
qed

lemma deletar_cliente_snd:
  "snd (deletar_cliente db i) = db
   \<or> (\<exists>c. snd (deletar_cliente db i) = commit_delete db c)"
  by (cases "obter_cliente_por_id db i") (auto simp: deletar_cliente_def)

lemma esquema_ok_executar:
  assumes "esquema_ok db"
  shows "esquema_ok (executar db opr)"
proof (cases opr)
  case (Create agora d)
  with assms criar_cliente_snd [of db agora d] esquema_ok_commit_insert [OF assms]
  show ?thesis by auto
next
  case (Update i d)
  with assms atualizar_cliente_snd [of db i d] esquema_ok_commit_update [OF assms]
  show ?thesis by auto
next
  case (UpdateEmail i e)
  with assms atualizar_email_snd [of db i e] esquema_ok_commit_update [OF assms]
  show ?thesis by auto
next
  case (Delete i)
  with assms deletar_cliente_snd [of db i] esquema_ok_commit_delete [OF assms]
  show ?thesis by auto
qed

lemma esquema_ok_foldl:
  "esquema_ok db \<Longrightarrow> esquema_ok (foldl executar db ops)"
proof (induction ops arbitrary: db)
  case Nil
  then show ?case by simp
next
  case (Cons opr ops)
  from Cons.prems have "esquema_ok (executar db opr)" by (rule esquema_ok_executar)
  then have "esquema_ok (foldl executar (executar db opr) ops)" by (rule Cons.IH)
  then show ?case by simp
qed

text \<open>
  Claim C6. In every state reached from a store without customers by any sequence of
  Create, Update, UpdateEmail and Delete requests (failed ones included), no two customer
  records have the same email and no two have the same cpf; both are present in every
  record.
\<close>

theorem unicidade_email_cpf:
  "distinct (map email (clientes (foldl executar \<lparr>clientes = [], pedidos = ps\<rparr> ops)))
   \<and> distinct (map cpf (clientes (foldl executar \<lparr>clientes = [], pedidos = ps\<rparr> ops)))
   \<and> None \<notin> set (map email (clientes (foldl executar \<lparr>clientes = [], pedidos = ps\<rparr> ops)))
   \<and> None \<notin> set (map cpf (clientes (foldl executar \<lparr>clientes = [], pedidos = ps\<rparr> ops)))"
proof -
  have "esquema_ok \<lparr>clientes = [], pedidos = ps\<rparr>"
    by (simp add: esquema_ok_def)
  then have "esquema_ok (foldl executar \<lparr>clientes = [], pedidos = ps\<rparr> ops)"
    by (rule esquema_ok_foldl)
  then show ?thesis by (simp add: esquema_ok_def)
qed

section \<open>Search by name\<close>

lemma like_percent: "like ''%'' s"
  by (induction s) auto

lemma like_prefix:
  "CHR ''%'' \<notin> set p \<Longrightarrow> CHR ''_'' \<notin> set p \<Longrightarrow> like (p @ ''%'') s \<longleftrightarrow> prefix p s"
proof (induction p arbitrary: s)
  case Nil
  then show ?case by (simp add: like_percent)
next
  case (Cons a p)
  then show ?case by (cases s) auto
qed

lemma like_percent_Cons: "like (CHR ''%'' # ps) s \<longleftrightarrow> (\<exists>t. suffix t s \<and> like ps t)"
proof (induction s)
  case Nil
  then show ?case by simp
next
  case (Cons c s)
  then show ?case by (auto simp: suffix_Cons)
qed

lemma like_contains:
  assumes "CHR ''%'' \<notin> set p" and "CHR ''_'' \<notin> set p"
  shows "like (''%'' @ p @ ''%'') s \<longleftrightarrow> sublist p s"
  using assms by (auto simp: like_percent_Cons like_prefix sublist_def prefix_def suffix_def)

lemma lower_char_percent: "lower_char c = CHR ''%'' \<longleftrightarrow> c = CHR ''%''"
  by (cases c) (auto simp add: lower_char_def Let_def)

lemma lower_char_underscore: "lower_char c = CHR ''_'' \<longleftrightarrow> c = CHR ''_''"
  by (cases c) (auto simp add: lower_char_def Let_def)

lemma ilike_sublist:
  assumes "CHR ''%'' \<notin> set q" and "CHR ''_'' \<notin> set q"
  shows "ilike n (''%'' @ q @ ''%'') \<longleftrightarrow> sublist (map lower_char q) (map lower_char n)"
proof -
  have "CHR ''%'' \<notin> set (map lower_char q)"
  proof
    assume "CHR ''%'' \<in> set (map lower_char q)"
    then obtain c where c: "c \<in> set q" "CHR ''%'' = lower_char c" by auto
    from c(2) have "c = CHR ''%''" using lower_char_percent by metis
    with c(1) assms(1) show False by simp
  qed
  moreover have "CHR ''_'' \<notin> set (map lower_char q)"
  proof
    assume "CHR ''_'' \<in> set (map lower_char q)"
    then obtain c where c: "c \<in> set q" "CHR ''_'' = lower_char c" by auto
    from c(2) have "c = CHR ''_''" using lower_char_underscore by metis
    with c(1) assms(2) show False by simp
  qed
  ultimately have "like (''%'' @ map lower_char q @ ''%'') (map lower_char n)
      \<longleftrightarrow> sublist (map lower_char q) (map lower_char n)"
    by (rule like_contains)
  moreover have "map lower_char (''%'' @ q @ ''%'') = ''%'' @ map lower_char q @ ''%''"
    by (simp add: lower_char_def)
  ultimately show ?thesis by (simp add: ilike_def)
qed

text \<open>
  What the search does for a query without the characters \<^verbatim>\<open>%\<close> and \<^verbatim>\<open>_\<close>: it returns
  the customers whose lower-cased name contains the lower-cased query as a contiguous run
  of characters, which is the substring search the route and the docstring describe.
\<close>

lemma buscar_por_nome_sem_curinga:
  assumes "CHR ''%'' \<notin> set q" and "CHR ''_'' \<notin> set q"
  shows "buscar_por_nome db q
           = filter (\<lambda>c. case nome c of None \<Rightarrow> False
                       | Some n \<Rightarrow> sublist (map lower_char q) (map lower_char n))
               (clientes db)"
  by (simp only: buscar_por_nome_def ilike_sublist [OF assms])

lemma buscar_por_nome_maria_silva:
  assumes "c \<in> set (clientes db)" and "nome c = Some ''Maria Silva''"
  shows "c \<in> set (buscar_por_nome db ''maria'')"
    and "c \<in> set (buscar_por_nome db ''SILVA'')"
    and "c \<in> set (buscar_por_nome db ''ia Si'')"
  using assms by (simp_all add: buscar_por_nome_def ilike_def lower_char_def)

text \<open>
  Claim C7 against the code. The route describes the search as "Busca clientes cujo nome
  contenha o texto fornecido" and the docstring as a search by "parte do nome", which is
  what the claim says; but \<^verbatim>\<open>buscar_por_nome\<close> puts the query into the LIKE pattern
  \<^verbatim>\<open>f"%{nome}%"\<close> without escaping it, so a \<^verbatim>\<open>_\<close> or \<^verbatim>\<open>%\<close> in the query is a wildcard.
  The query \<^verbatim>\<open>M_ria\<close> returns the customer named "Maria Silva", a name that holds no
  underscore and so does not contain the query, whatever the letter case.
\<close>

theorem buscar_por_nome_curinga:
  "buscar_por_nome db_exemplo ''M_ria'' = [cliente_maria]
   \<and> nome cliente_maria = Some ''Maria Silva''
   \<and> CHR ''_'' \<in> set ''M_ria''
   \<and> CHR ''_'' \<notin> set ''Maria Silva''"
  by (simp add: buscar_por_nome_def ilike_def lower_char_def
      db_exemplo_def cliente_maria_def cliente_joao_def)

end
